theory Spec2Isabelle
  imports Main "HOL-Library.Word" "HOL-Library.Sublist"
begin

section \<open>Data model of the URL shortener (using-json/main.go)\<close>

text \<open>
  Go's \<open>int64\<close> is a 64-bit word: \<open>+\<close> wraps, and the comparisons of the source are the
  signed ones (\<open>word_sless\<close>, \<open>word_sle\<close>). Go's \<open>int\<close> (the click counter) is 64 bits wide on
  the platforms the server runs on. A Go \<open>string\<close> is a byte sequence, that is a \<open>string\<close>.
\<close>

type_synonym int64 = "64 word"

record URLData =
  LongURL :: string
  Clicks :: int64
  CreatedAt :: int64
  Expiry :: int64

text \<open>The persisted document, \<open>type Store struct\<close>.\<close>

record Store =
  IDCounter :: int64
  URLStore :: "string \<rightharpoonup> URLData"

text \<open>
  The package-level variables \<open>idCounter\<close> and \<open>urlStore\<close>, and the files of the working
  directory that \<open>saveStore\<close> and \<open>loadStore\<close> touch (file name to content). The handlers
  only pass a file's content on, so its type is left open: the bytes of the file, or the
  JSON document that these bytes denote.
\<close>

record 'c globals =
  idCounter :: int64
  urlStore :: "string \<rightharpoonup> URLData"
  disk :: "string \<rightharpoonup> 'c"

definition base62 :: string where
  "base62 = ''0123456789abcdefghijklmnopqrstuvwxyzABCDEFGHIJKLMNOPQRSTUVWXYZ''"

definition filename :: string where
  "filename = ''store.json''"

subsection \<open>Validation\<close>

definition alnum :: "char \<Rightarrow> bool" where
  "alnum c \<longleftrightarrow>
     (let b = (of_char c :: nat)
      in (of_char CHR ''a'' \<le> b \<and> b \<le> of_char CHR ''z'')
         \<or> (of_char CHR ''A'' \<le> b \<and> b \<le> of_char CHR ''Z'')
         \<or> (of_char CHR ''0'' \<le> b \<and> b \<le> of_char CHR ''9''))"

text \<open>\<open>validCodeRegex = ^[a-zA-Z0-9]+$\<close>: one or more characters, all of them alphanumeric.\<close>

definition isValidCode :: "string \<Rightarrow> bool" where
  "isValidCode code \<longleftrightarrow> code \<noteq> [] \<and> list_all alnum code"

definition isValidURL :: "string \<Rightarrow> bool" where
  "isValidURL url \<longleftrightarrow> prefix ''http://'' url \<or> prefix ''https://'' url"

subsection \<open>Base-62 encoding\<close>

text \<open>
  \<open>encodeBase62\<close> works on the value of its \<open>int64\<close> argument, which only shrinks in the
  loop; the loop body runs for positive \<open>n\<close> only, where Go's truncating \<open>/\<close> and \<open>%\<close>
  agree with \<open>div\<close> and \<open>mod\<close>. A negative argument skips the loop and yields the empty
  string.
\<close>

function encodeBase62_loop :: "int \<Rightarrow> string \<Rightarrow> string" where
  "encodeBase62_loop n result =
     (if n > 0 then encodeBase62_loop (n div 62) (base62 ! nat (n mod 62) # result)
      else result)"
  by pat_completeness auto
termination
  by (relation "measure (\<lambda>(n, result). nat n)") auto

declare encodeBase62_loop.simps [simp del]

definition encodeBase62 :: "int64 \<Rightarrow> string" where
  "encodeBase62 n = (if n = 0 then ''0'' else encodeBase62_loop (sint n) [])"

subsection \<open>Persistence\<close>

text \<open>
  \<open>encoding/json\<close> is a library: its encoder and decoder for the \<open>Store\<close> document are
  parameters of \<open>saveStore\<close> and \<open>loadStore\<close>; the section on the JSON codec models the
  two. Encoding a struct of strings, integers and a string-keyed map returns no error, and
  the file-system calls are taken to succeed (their failure ends the process through
  \<open>log.Fatalf\<close>), so \<open>saveStore\<close> is total. Decoding can fail, and \<open>loadStore\<close> then
  ends the process: the result \<open>None\<close>.
\<close>

definition saveStore :: "(Store \<Rightarrow> 'c) \<Rightarrow> 'c globals \<Rightarrow> 'c globals" where
  "saveStore marshal g =
     (let data = \<lparr>IDCounter = idCounter g, URLStore = urlStore g\<rparr>;
          fileBytes = marshal data;
          tempFile = filename @ ''.tmp'';
          written = (disk g)(tempFile \<mapsto> fileBytes);
          renamed = (written(filename := written tempFile))(tempFile := None)
      in g\<lparr>disk := renamed\<rparr>)"

definition loadStore :: "('c \<Rightarrow> Store option) \<Rightarrow> 'c globals \<Rightarrow> 'c globals option" where
  "loadStore unmarshal g =
     (case disk g filename of
        None \<Rightarrow> Some g
      | Some data \<Rightarrow>
          (case unmarshal data of
             None \<Rightarrow> None
           | Some store \<Rightarrow> Some (g\<lparr>idCounter := IDCounter store, urlStore := URLStore store\<rparr>)))"

subsection \<open>Handlers\<close>

text \<open>What a handler writes to the client: \<open>http.Error\<close>, or the success reply.\<close>

datatype response =
    http_Error string nat
  | shorten_OK string int64
  | http_Redirect string nat
  | WriteHeader nat
  | info_OK string int64 int64 int64 bool

definition StatusBadRequest :: nat where "StatusBadRequest = 400"
definition StatusNotFound :: nat where "StatusNotFound = 404"
definition StatusConflict :: nat where "StatusConflict = 409"
definition StatusGone :: nat where "StatusGone = 410"
definition StatusFound :: nat where "StatusFound = 302"
definition StatusNoContent :: nat where "StatusNoContent = 204"

text \<open>The decoded body of \<open>POST /shorten\<close>; an omitted field has Go's zero value.\<close>

record shorten_body =
  URL :: string
  CustomCode :: string
  ExpirySeconds :: int64

text \<open>
  The expiry test of \<open>cleanUpExpiredLinks\<close>, \<open>infoHandler\<close> and \<open>listHandle\<close>
  (\<open>now > data.CreatedAt + data.Expiry\<close>, the field \<open>is_expired\<close> of the replies): the sum
  wraps in 64 bits and the comparison is signed.
\<close>

definition is_expired :: "int64 \<Rightarrow> URLData \<Rightarrow> bool" where
  "is_expired now data \<longleftrightarrow> CreatedAt data + Expiry data <s now"

text \<open>
  The spec's \<open>IsExpired(record, now)\<close>, \<open>now > record.createdAt + record.ttlSeconds\<close>, read
  on the integers, where the sum does not wrap.
\<close>

definition IsExpired :: "URLData \<Rightarrow> int \<Rightarrow> bool" where
  "IsExpired record now \<longleftrightarrow> now > sint (CreatedAt record) + sint (Expiry record)"

text \<open>
  \<open>cleanUpExpiredLinks\<close>. Go leaves the order of \<open>range\<close> over a map open: \<open>codes\<close> is
  the order in which the run visits the keys. An entry deleted before it is reached is not
  produced, hence the lookup. \<open>now\<close> is the value of \<open>time.Now().Unix()\<close>.
\<close>

fun cleanUp_range :: "int64 \<Rightarrow> string list \<Rightarrow> (string \<rightharpoonup> URLData) \<Rightarrow> (string \<rightharpoonup> URLData)" where
  "cleanUp_range now [] m = m"
| "cleanUp_range now (code # codes) m =
     (case m code of
        None \<Rightarrow> cleanUp_range now codes m
      | Some data \<Rightarrow>
          if is_expired now data then cleanUp_range now codes (m(code := None))
          else cleanUp_range now codes m)"

definition cleanUpExpiredLinks ::
  "(Store \<Rightarrow> 'c) \<Rightarrow> int64 \<Rightarrow> string list \<Rightarrow> 'c globals \<Rightarrow> 'c globals" where
  "cleanUpExpiredLinks marshal now codes g =
     saveStore marshal (g\<lparr>urlStore := cleanUp_range now codes (urlStore g)\<rparr>)"

text \<open>
  \<open>shortenHandler\<close>, after the method check and the JSON decoding of the routing layer.
  \<open>now\<close> is the value of \<open>time.Now().Unix()\<close>. \<open>shorten_store\<close> is the common tail of
  the handler, from \<open>expiry := body.ExpirySeconds\<close> on.
\<close>

definition shorten_store ::
  "(Store \<Rightarrow> 'c) \<Rightarrow> int64 \<Rightarrow> shorten_body \<Rightarrow> string \<Rightarrow> 'c globals \<Rightarrow> response \<times> 'c globals" where
  "shorten_store marshal now body code g =
     (let expiry = (if ExpirySeconds body = 0 then 7 * 24 * 3600 else ExpirySeconds body);
          g' = g\<lparr>urlStore := (urlStore g)(code \<mapsto>
                 \<lparr>LongURL = URL body, Clicks = 0, CreatedAt = now, Expiry = expiry\<rparr>)\<rparr>
      in (shorten_OK (''http://localhost:8080/'' @ code) expiry, saveStore marshal g'))"

definition shortenHandler ::
  "(Store \<Rightarrow> 'c) \<Rightarrow> int64 \<Rightarrow> shorten_body \<Rightarrow> 'c globals \<Rightarrow> response \<times> 'c globals" where
  "shortenHandler marshal now body g =
     (if URL body = [] then (http_Error ''Invalid request body'' StatusBadRequest, g)
      else if \<not> isValidURL (URL body) then
        (http_Error ''Invalid URL. Must start with http:// or https://'' StatusBadRequest, g)
      else if CustomCode body \<noteq> [] then
        (if \<not> isValidCode (CustomCode body) then
           (http_Error ''Invalid custom code. Use only letters and numbers.'' StatusBadRequest, g)
         else if urlStore g (CustomCode body) \<noteq> None then
           (http_Error ''Custom code already in use'' StatusConflict, g)
         else shorten_store marshal now body (CustomCode body) g)
      else
        (let g' = g\<lparr>idCounter := idCounter g + 1\<rparr>
         in shorten_store marshal now body (encodeBase62 (idCounter g')) g'))"

text \<open>
  \<open>handleRedirects\<close>; \<open>code\<close> is the request path without its leading slash. The first
  lookup answers 410 for an expired record, the second counts the click or answers 404.
\<close>

definition handleRedirects ::
  "(Store \<Rightarrow> 'c) \<Rightarrow> int64 \<Rightarrow> string \<Rightarrow> 'c globals \<Rightarrow> response \<times> 'c globals" where
  "handleRedirects marshal now code g =
     (if (case urlStore g code of
            Some data \<Rightarrow> Expiry data \<noteq> 0 \<and> CreatedAt data + Expiry data <s now
          | None \<Rightarrow> False)
      then (http_Error ''URL expired'' StatusGone, g)
      else
        (case urlStore g code of
           Some data \<Rightarrow>
             (let data' = data\<lparr>Clicks := Clicks data + 1\<rparr>;
                  g' = g\<lparr>urlStore := (urlStore g)(code \<mapsto> data')\<rparr>
              in (http_Redirect (LongURL data') StatusFound, saveStore marshal g'))
         | None \<Rightarrow> (http_Error ''URL not found!'' StatusNotFound, g)))"

text \<open>
  \<open>infoHandler\<close>: the reply carries the long URL, the clicks, the creation and the expiry
  instants (before their rendering as text) and the expiry flag.
\<close>

definition infoHandler :: "int64 \<Rightarrow> string \<Rightarrow> 'c globals \<Rightarrow> response \<times> 'c globals" where
  "infoHandler current_time code g =
     (case urlStore g code of
        None \<Rightarrow> (http_Error ''Short URL not found'' StatusNotFound, g)
      | Some data \<Rightarrow>
          (info_OK (LongURL data) (Clicks data) (CreatedAt data) (CreatedAt data + Expiry data)
             (is_expired current_time data), g))"

definition deleteHandle :: "(Store \<Rightarrow> 'c) \<Rightarrow> string \<Rightarrow> 'c globals \<Rightarrow> response \<times> 'c globals" where
  "deleteHandle marshal code g =
     (if urlStore g code = None then (http_Error ''Short URL not found'' StatusNotFound, g)
      else (WriteHeader StatusNoContent,
            saveStore marshal (g\<lparr>urlStore := (urlStore g)(code := None)\<rparr>)))"

subsection \<open>Code allocation\<close>

text \<open>
  The allocation step of \<open>shortenHandler\<close>: \<open>idCounter++\<close>, then
  \<open>encodeBase62(idCounter)\<close>. \<open>NextCodes k\<close> is the list of codes of \<open>k\<close> successive
  allocations.
\<close>

definition NextCode :: "'c globals \<Rightarrow> string \<times> 'c globals" where
  "NextCode g = (let g' = g\<lparr>idCounter := idCounter g + 1\<rparr> in (encodeBase62 (idCounter g'), g'))"

fun NextCodes :: "nat \<Rightarrow> 'c globals \<Rightarrow> string list" where
  "NextCodes 0 g = []"
| "NextCodes (Suc k) g = fst (NextCode g) # NextCodes k (snd (NextCode g))"

text \<open>
  The integer a code stands for, most significant digit first, a character's digit value
  being its position in the alphabet \<open>base62\<close>.
\<close>

fun indexOf :: "'a \<Rightarrow> 'a list \<Rightarrow> nat" where
  "indexOf c [] = 0"
| "indexOf c (x # xs) = (if x = c then 0 else Suc (indexOf c xs))"

definition decodeBase62 :: "string \<Rightarrow> int" where
  "decodeBase62 code = foldl (\<lambda>acc c. acc * 62 + int (indexOf c base62)) 0 code"

section \<open>The rate limiter of the Redis variant\<close>

text \<open>
  An instant of \<open>time.Time\<close> is its position on the clock in nanoseconds. \<open>Sub\<close> yields a
  \<open>time.Duration\<close>, a 64-bit count of nanoseconds that saturates at both ends. One call of
  the middleware reads the clock once: \<open>now\<close>.
\<close>

definition time_Sub :: "int \<Rightarrow> int \<Rightarrow> int" where
  "time_Sub t u = (if t - u > 2 ^ 63 - 1 then 2 ^ 63 - 1
                   else if t - u < - (2 ^ 63) then - (2 ^ 63) else t - u)"

definition Second :: int where "Second = 1000000000"
definition Minute :: int where "Minute = 60 * Second"

definition rateLimitWindow :: int where "rateLimitWindow = 1 * Minute"
definition maxRequests :: int where "maxRequests = 5"

record rateLimiter =
  lastRequest :: int
  requests :: int

text \<open>What the middleware does with the request: hand it on, or abort it with a status.\<close>

datatype verdict = Next | AbortWithStatusJSON nat string

definition rateLimitMiddleware ::
  "int \<Rightarrow> string \<Rightarrow> (string \<rightharpoonup> rateLimiter) \<Rightarrow> verdict \<times> (string \<rightharpoonup> rateLimiter)" where
  "rateLimitMiddleware now ip rateLimiters =
     (case rateLimiters ip of
        None \<Rightarrow> (Next, rateLimiters(ip \<mapsto> \<lparr>lastRequest = now, requests = 1\<rparr>))
      | Some limiter \<Rightarrow>
          if time_Sub now (lastRequest limiter) > rateLimitWindow then
            (Next, rateLimiters(ip \<mapsto> \<lparr>lastRequest = now, requests = 1\<rparr>))
          else if requests limiter \<ge> maxRequests then
            (AbortWithStatusJSON 429 ''Rate limit exceeded. Try again later.'', rateLimiters)
          else
            (Next, rateLimiters(ip \<mapsto>
               limiter\<lparr>requests := requests limiter + 1, lastRequest := now\<rparr>)))"

text \<open>
  The first test of the middleware, on its own:
  \<open>!exists || time.Since(limiter.lastRequest) > rateLimitWindow\<close>.
\<close>

definition window_over :: "int \<Rightarrow> rateLimiter option \<Rightarrow> bool" where
  "window_over now entry \<longleftrightarrow>
     (case entry of None \<Rightarrow> True
      | Some limiter \<Rightarrow> time_Sub now (lastRequest limiter) > rateLimitWindow)"

text \<open>Successive requests of one client, at the instants of the list.\<close>

fun attempts ::
  "string \<Rightarrow> int list \<Rightarrow> (string \<rightharpoonup> rateLimiter) \<Rightarrow> verdict list \<times> (string \<rightharpoonup> rateLimiter)" where
  "attempts ip [] rls = ([], rls)"
| "attempts ip (now # later) rls =
     (let (v, rls') = rateLimitMiddleware now ip rls;
          (vs, rls'') = attempts ip later rls'
      in (v # vs, rls''))"

text \<open>No request of the list finds the window over: the requests fall into one window.\<close>

fun one_window :: "string \<Rightarrow> int list \<Rightarrow> (string \<rightharpoonup> rateLimiter) \<Rightarrow> bool" where
  "one_window ip [] rls = True"
| "one_window ip (now # later) rls =
     (\<not> window_over now (rls ip) \<and> one_window ip later (snd (rateLimitMiddleware now ip rls)))"

text \<open>
  The start of the client's current window: the instant of the latest request that found
  no entry or found the window over, and so set the count to 1.
\<close>

fun windowStart :: "string \<Rightarrow> int list \<Rightarrow> (string \<rightharpoonup> rateLimiter) \<Rightarrow> int option" where
  "windowStart ip [] rls = None"
| "windowStart ip (now # later) rls =
     (case windowStart ip later (snd (rateLimitMiddleware now ip rls)) of
        Some start \<Rightarrow> Some start
      | None \<Rightarrow> if window_over now (rls ip) then Some now else None)"

section \<open>Lock discipline of the handlers (using-json/main.go)\<close>

text \<open>
  The accesses of a handler to the shared variables, in program order, with the calls on
  \<open>mutex\<close>. A deferred \<open>Unlock\<close> runs when the handler returns.
\<close>

datatype access =
    mutex_Lock | mutex_Unlock
  | read_urlStore | write_urlStore | delete_urlStore | incr_idCounter | call_saveStore

definition mutates :: "access \<Rightarrow> bool" where
  "mutates a \<longleftrightarrow> a = write_urlStore \<or> a = delete_urlStore \<or> a = incr_idCounter"

text \<open>The accesses that mutate the map or the counter while the mutex is not held.\<close>

fun unlocked_mutations :: "bool \<Rightarrow> access list \<Rightarrow> access list" where
  "unlocked_mutations held [] = []"
| "unlocked_mutations held (a # as) =
     (if a = mutex_Lock then unlocked_mutations True as
      else if a = mutex_Unlock then unlocked_mutations False as
      else if mutates a \<and> \<not> held then a # unlocked_mutations held as
      else unlocked_mutations held as)"

definition shortenHandler_accesses :: "shorten_body \<Rightarrow> 'c globals \<Rightarrow> access list" where
  "shortenHandler_accesses body g =
     (if URL body = [] then []
      else if \<not> isValidURL (URL body) then []
      else mutex_Lock #
        (if CustomCode body \<noteq> [] then
           (if \<not> isValidCode (CustomCode body) then []
            else read_urlStore #
              (if urlStore g (CustomCode body) \<noteq> None then []
               else [write_urlStore, call_saveStore]))
         else [incr_idCounter, write_urlStore, call_saveStore])
        @ [mutex_Unlock])"

fun cleanUp_range_accesses :: "int64 \<Rightarrow> string list \<Rightarrow> (string \<rightharpoonup> URLData) \<Rightarrow> access list" where
  "cleanUp_range_accesses now [] m = []"
| "cleanUp_range_accesses now (code # codes) m =
     (case m code of
        None \<Rightarrow> cleanUp_range_accesses now codes m
      | Some data \<Rightarrow>
          if is_expired now data
          then read_urlStore # delete_urlStore # cleanUp_range_accesses now codes (m(code := None))
          else read_urlStore # cleanUp_range_accesses now codes m)"

definition cleanUpExpiredLinks_accesses :: "int64 \<Rightarrow> string list \<Rightarrow> 'c globals \<Rightarrow> access list" where
  "cleanUpExpiredLinks_accesses now codes g =
     mutex_Lock # cleanUp_range_accesses now codes (urlStore g) @ [call_saveStore, mutex_Unlock]"

definition deleteHandle_accesses :: "string \<Rightarrow> 'c globals \<Rightarrow> access list" where
  "deleteHandle_accesses code g =
     mutex_Lock # read_urlStore #
       (if urlStore g code = None then [] else [delete_urlStore, call_saveStore])
       @ [mutex_Unlock]"

definition handleRedirects_accesses :: "int64 \<Rightarrow> string \<Rightarrow> 'c globals \<Rightarrow> access list" where
  "handleRedirects_accesses now code g =
     read_urlStore #
       (if (case urlStore g code of
              Some data \<Rightarrow> Expiry data \<noteq> 0 \<and> CreatedAt data + Expiry data <s now
            | None \<Rightarrow> False)
        then []
        else read_urlStore #
          (case urlStore g code of
             Some data \<Rightarrow> [write_urlStore, call_saveStore]
           | None \<Rightarrow> []))"

section \<open>The JSON codec of the snapshot\<close>

text \<open>
  \<open>saveStore\<close> and \<open>loadStore\<close> call \<open>json.MarshalIndent\<close> and \<open>json.Unmarshal\<close> of
  the library \<open>encoding/json\<close>. This section models what the two do to the \<open>Store\<close>
  document, as the library documents it, on the level of JSON values: the text that the
  encoder renders and the decoder parses is not modelled, a file's content is the JSON value
  that its text denotes. \<open>JOther\<close> stands for a value of another kind (a boolean, an array,
  a number with a fraction or an exponent), which no field of the document accepts. In an
  object the members are in the order of the text.
\<close>

datatype json = JNull | JNumber int | JString string | JObject "(string \<times> json) list" | JOther

subsection \<open>Strings: the coercion to valid UTF-8\<close>

definition byte_in :: "nat \<Rightarrow> nat \<Rightarrow> char \<Rightarrow> bool" where
  "byte_in lo hi c \<longleftrightarrow> lo \<le> of_char c \<and> (of_char c :: nat) \<le> hi"

text \<open>
  The length of the UTF-8 encoding of one code point at the head of the string, and 0 when
  there is none (a stray or missing continuation byte, an overlong form, a surrogate, a
  value above U+10FFFF), which is where \<open>utf8.DecodeRuneInString\<close> reports \<open>RuneError\<close>
  with the width 1.
\<close>

fun rune_len :: "string \<Rightarrow> nat" where
  "rune_len [] = 0"
| "rune_len (c # cs) =
     (if byte_in 0x00 0x7F c then 1
      else if byte_in 0xC2 0xDF c then
        (case cs of c1 # _ \<Rightarrow> if byte_in 0x80 0xBF c1 then 2 else 0 | _ \<Rightarrow> 0)
      else if byte_in 0xE0 0xEF c then
        (case cs of
           c1 # c2 # _ \<Rightarrow>
             if byte_in (if c = CHR 0xE0 then 0xA0 else 0x80)
                        (if c = CHR 0xED then 0x9F else 0xBF) c1
                \<and> byte_in 0x80 0xBF c2
             then 3 else 0
         | _ \<Rightarrow> 0)
      else if byte_in 0xF0 0xF4 c then
        (case cs of
           c1 # c2 # c3 # _ \<Rightarrow>
             if byte_in (if c = CHR 0xF0 then 0x90 else 0x80)
                        (if c = CHR 0xF4 then 0x8F else 0xBF) c1
                \<and> byte_in 0x80 0xBF c2 \<and> byte_in 0x80 0xBF c3
             then 4 else 0
         | _ \<Rightarrow> 0)
      else 0)"

text \<open>\<open>utf8.ValidString\<close>: the string is a sequence of encoded code points.\<close>

function utf8_ValidString :: "string \<Rightarrow> bool" where
  "utf8_ValidString [] = True"
| "utf8_ValidString (c # cs) =
     (if rune_len (c # cs) = 0 then False
      else utf8_ValidString (drop (rune_len (c # cs)) (c # cs)))"
  by pat_completeness auto
termination
  by (relation "measure length") auto

text \<open>
  The encoder writes a Go string, a map key as well, as a JSON string coerced to valid
  UTF-8: every byte that does not begin an encoded code point becomes U+FFFD, the bytes
  \<open>EF BF BD\<close>.
\<close>

function coerce_utf8 :: "string \<Rightarrow> string" where
  "coerce_utf8 [] = []"
| "coerce_utf8 (c # cs) =
     (if rune_len (c # cs) = 0 then [CHR 0xEF, CHR 0xBF, CHR 0xBD] @ coerce_utf8 cs
      else take (rune_len (c # cs)) (c # cs)
           @ coerce_utf8 (drop (rune_len (c # cs)) (c # cs)))"
  by pat_completeness auto
termination
  by (relation "measure length") auto

subsection \<open>The encoder\<close>

text \<open>
  A struct is written as an object of its fields under the names of their \<open>json\<close> tags, in
  the order of the declaration; an integer as a number; the map as an object with one
  member for each key, \<open>codes\<close> being the keys in the order in which they are written
  (the encoder sorts them).
\<close>

definition encode_URLData :: "URLData \<Rightarrow> json" where
  "encode_URLData data =
     JObject [(''long_url'', JString (coerce_utf8 (LongURL data))),
              (''clicks'', JNumber (sint (Clicks data))),
              (''created_at'', JNumber (sint (CreatedAt data))),
              (''expiry'', JNumber (sint (Expiry data)))]"

definition json_MarshalIndent :: "string list \<Rightarrow> Store \<Rightarrow> json" where
  "json_MarshalIndent codes store =
     JObject [(''idCounter'', JNumber (sint (IDCounter store))),
              (''urlStore'', JObject (List.map_filter
                 (\<lambda>code. map_option (\<lambda>data. (coerce_utf8 code, encode_URLData data))
                           (URLStore store code))
                 codes))]"

subsection \<open>The decoder\<close>

text \<open>
  A member of an object goes to the field whose tag equals its name up to the case of the
  letters; besides the ASCII letters, the Kelvin sign (\<open>E2 84 AA\<close>) counts as a \<open>k\<close> and the
  long s (\<open>C5 BF\<close>) as an \<open>s\<close>. \<open>foldName\<close> maps the names that are equal in this sense to
  one name.
\<close>

definition upper :: "char \<Rightarrow> char" where
  "upper c =
     (case map_of (zip ''abcdefghijklmnopqrstuvwxyz'' ''ABCDEFGHIJKLMNOPQRSTUVWXYZ'') c of
        Some u \<Rightarrow> u
      | None \<Rightarrow> c)"

fun foldName :: "string \<Rightarrow> string" where
  "foldName (c1 # c2 # c3 # cs) =
     (if c1 = CHR 0xE2 \<and> c2 = CHR 0x84 \<and> c3 = CHR 0xAA then CHR ''K'' # foldName cs
      else if c1 = CHR 0xC5 \<and> c2 = CHR 0xBF then CHR ''S'' # foldName (c3 # cs)
      else upper c1 # foldName (c2 # c3 # cs))"
| "foldName [c1, c2] =
     (if c1 = CHR 0xC5 \<and> c2 = CHR 0xBF then [CHR ''S''] else upper c1 # foldName [c2])"
| "foldName [c1] = [upper c1]"
| "foldName [] = []"

text \<open>
  Decoding into a field that holds \<open>cur\<close>. \<open>null\<close> leaves an integer, a string or a struct
  as it is and empties a map. A value of the wrong kind, or a number outside the 64 bits,
  is an error: \<open>Unmarshal\<close> then returns an error, here \<open>None\<close>. A member that matches no
  field is skipped; of two members for one field the later one counts, and a second object
  for the map adds to the first.
\<close>

definition decode_int64 :: "json \<Rightarrow> int64 \<Rightarrow> int64 option" where
  "decode_int64 v cur =
     (case v of
        JNumber n \<Rightarrow>
          if - 9223372036854775808 \<le> n \<and> n \<le> 9223372036854775807 then Some (word_of_int n)
          else None
      | JNull \<Rightarrow> Some cur
      | _ \<Rightarrow> None)"

definition decode_string :: "json \<Rightarrow> string \<Rightarrow> string option" where
  "decode_string v cur = (case v of JString s \<Rightarrow> Some s | JNull \<Rightarrow> Some cur | _ \<Rightarrow> None)"

fun decode_URLData_members :: "(string \<times> json) list \<Rightarrow> URLData \<Rightarrow> URLData option" where
  "decode_URLData_members [] data = Some data"
| "decode_URLData_members ((name, v) # members) data =
     (if foldName name = foldName ''long_url'' then
        (case decode_string v (LongURL data) of
           None \<Rightarrow> None
         | Some s \<Rightarrow> decode_URLData_members members (data\<lparr>LongURL := s\<rparr>))
      else if foldName name = foldName ''clicks'' then
        (case decode_int64 v (Clicks data) of
           None \<Rightarrow> None
         | Some n \<Rightarrow> decode_URLData_members members (data\<lparr>Clicks := n\<rparr>))
      else if foldName name = foldName ''created_at'' then
        (case decode_int64 v (CreatedAt data) of
           None \<Rightarrow> None
         | Some n \<Rightarrow> decode_URLData_members members (data\<lparr>CreatedAt := n\<rparr>))
      else if foldName name = foldName ''expiry'' then
        (case decode_int64 v (Expiry data) of
           None \<Rightarrow> None
         | Some n \<Rightarrow> decode_URLData_members members (data\<lparr>Expiry := n\<rparr>))
      else decode_URLData_members members data)"

definition decode_URLData :: "json \<Rightarrow> URLData \<Rightarrow> URLData option" where
  "decode_URLData v cur =
     (case v of
        JObject members \<Rightarrow> decode_URLData_members members cur
      | JNull \<Rightarrow> Some cur
      | _ \<Rightarrow> None)"

text \<open>Each member of the map's object is decoded into a fresh zero record and stored.\<close>

fun decode_map_members ::
  "(string \<times> json) list \<Rightarrow> (string \<rightharpoonup> URLData) \<Rightarrow> (string \<rightharpoonup> URLData) option" where
  "decode_map_members [] m = Some m"
| "decode_map_members ((code, v) # members) m =
     (case decode_URLData v \<lparr>LongURL = [], Clicks = 0, CreatedAt = 0, Expiry = 0\<rparr> of
        None \<Rightarrow> None
      | Some data \<Rightarrow> decode_map_members members (m(code \<mapsto> data)))"

definition decode_map :: "json \<Rightarrow> (string \<rightharpoonup> URLData) \<Rightarrow> (string \<rightharpoonup> URLData) option" where
  "decode_map v cur =
     (case v of
        JObject members \<Rightarrow> decode_map_members members cur
      | JNull \<Rightarrow> Some Map.empty
      | _ \<Rightarrow> None)"

fun decode_Store_members :: "(string \<times> json) list \<Rightarrow> Store \<Rightarrow> Store option" where
  "decode_Store_members [] store = Some store"
| "decode_Store_members ((name, v) # members) store =
     (if foldName name = foldName ''idCounter'' then
        (case decode_int64 v (IDCounter store) of
           None \<Rightarrow> None
         | Some n \<Rightarrow> decode_Store_members members (store\<lparr>IDCounter := n\<rparr>))
      else if foldName name = foldName ''urlStore'' then
        (case decode_map v (URLStore store) of
           None \<Rightarrow> None
         | Some m \<Rightarrow> decode_Store_members members (store\<lparr>URLStore := m\<rparr>))
      else decode_Store_members members store)"

text \<open>\<open>json.Unmarshal(data, &store)\<close> for the zero \<open>store\<close> that \<open>loadStore\<close> declares.\<close>

definition json_Unmarshal :: "json \<Rightarrow> Store option" where
  "json_Unmarshal v =
     (case v of
        JObject members \<Rightarrow> decode_Store_members members \<lparr>IDCounter = 0, URLStore = Map.empty\<rparr>
      | JNull \<Rightarrow> Some \<lparr>IDCounter = 0, URLStore = Map.empty\<rparr>
      | _ \<Rightarrow> None)"

section \<open>Sample inputs\<close>

text \<open>
  An encoder for the worked instances that do not look at the file: it tells documents
  apart by their counter.
\<close>

definition sample_marshal :: "Store \<Rightarrow> string" where
  "sample_marshal data = encodeBase62 (IDCounter data)"

section \<open>Auxiliary facts\<close>

subsection \<open>Signed 64-bit arithmetic\<close>

lemma sint_range64:
  fixes w :: int64
  shows "- 9223372036854775808 \<le> sint w" and "sint w < 9223372036854775808"
  using sint_greater_eq [of w] sint_less [of w] by simp_all

lemma sint_add_no_wrap:
  fixes a b :: int64
  assumes "- 9223372036854775808 \<le> sint a + sint b" and "sint a + sint b < 9223372036854775808"
  shows "sint (a + b) = sint a + sint b"
proof -
  have "signed_take_bit 63 (sint a + sint b) = sint a + sint b"
    by (rule signed_take_bit_int_eq_self) (use assms in simp_all)
  then show ?thesis by (simp add: sint_word_ariths)
qed

subsection \<open>Persistence and validation\<close>

lemma saveStore_mem [simp]:
  "idCounter (saveStore marshal g) = idCounter g" "urlStore (saveStore marshal g) = urlStore g"
  by (simp_all add: saveStore_def Let_def)

lemma saveStore_disk [simp]:
  "disk (saveStore marshal g) filename
     = Some (marshal \<lparr>IDCounter = idCounter g, URLStore = urlStore g\<rparr>)"
  by (simp add: saveStore_def Let_def filename_def)

lemma isValidURL_nonempty: "isValidURL url \<Longrightarrow> url \<noteq> []"
  by (auto simp: isValidURL_def)

lemma is_expired_at_deadline:
  assumes "sint now = sint (CreatedAt data) + sint (Expiry data)"
  shows "\<not> is_expired now data"
proof -
  have "sint (CreatedAt data + Expiry data) = sint now"
    using assms sint_range64 [of now] by (simp add: sint_add_no_wrap)
  then show ?thesis by (simp add: is_expired_def word_sless_alt)
qed

lemma is_expired_after_deadline:
  assumes "sint now = sint (CreatedAt data) + sint (Expiry data) + 1"
      and "- 9223372036854775808 \<le> sint (CreatedAt data) + sint (Expiry data)"
  shows "is_expired now data"
proof -
  have "sint (CreatedAt data + Expiry data) = sint now - 1"
    using assms sint_range64 [of now] by (simp add: sint_add_no_wrap)
  then show ?thesis by (simp add: is_expired_def word_sless_alt)
qed

subsection \<open>The sweep loop\<close>

lemma cleanUp_range_lookup:
  "cleanUp_range now codes m code =
     (case m code of
        None \<Rightarrow> None
      | Some data \<Rightarrow> if code \<in> set codes \<and> is_expired now data then None else Some data)"
  by (induction codes arbitrary: m) (auto split: option.splits)

section \<open>The shorten, redirect and sweep operations\<close>

text \<open>
  C8. Shortening \<open>https://example.com\<close> with no custom code and no expiry, on an empty
  store whose counter is 0, succeeds: the reply carries the short URL of code \<open>1\<close> and the
  expiry 604800, the counter becomes 1, and the store holds under \<open>1\<close> exactly one record,
  with no clicks, the request's instant and the 7-day expiry.
\<close>

theorem shorten_first_code:
  "shortenHandler marshal now
      \<lparr>URL = ''https://example.com'', CustomCode = [], ExpirySeconds = 0\<rparr>
      \<lparr>idCounter = 0, urlStore = Map.empty, disk = d\<rparr>
   = (shorten_OK ''http://localhost:8080/1'' 604800,
      saveStore marshal
        \<lparr>idCounter = 1,
         urlStore = [''1'' \<mapsto> \<lparr>LongURL = ''https://example.com'', Clicks = 0,
                                CreatedAt = now, Expiry = 604800\<rparr>],
         disk = d\<rparr>)"
  by (simp add: shortenHandler_def shorten_store_def isValidURL_def encodeBase62_def
        encodeBase62_loop.simps base62_def)

text \<open>
  A shorten request whose custom code is a key of the store changes nothing and is answered
  with an error, whatever else it carries: 409 when it passes the two validations that come
  before the lookup, 400 when it does not.
\<close>

lemma shorten_taken_code_rejected:
  assumes "CustomCode body \<noteq> []" and "urlStore g (CustomCode body) \<noteq> None"
  shows "snd (shortenHandler marshal now body g) = g
       \<and> (if isValidURL (URL body) \<and> isValidCode (CustomCode body)
          then fst (shortenHandler marshal now body g)
                 = http_Error ''Custom code already in use'' StatusConflict
          else \<exists>msg. fst (shortenHandler marshal now body g) = http_Error msg StatusBadRequest)"
  using assms by (auto simp: shortenHandler_def dest: isValidURL_nonempty)

text \<open>
  C3. A shorten request that reaches the custom-code check (its URL has an \<open>http://\<close> or
  \<open>https://\<close> prefix and its custom code is well-formed) with a code that is a key of the
  store is answered 409 Conflict, and the whole state is as it was: the record under that
  code is the same after the call as before it.
\<close>

theorem shorten_existing_custom_code:
  assumes "isValidURL (URL body)" and "isValidCode (CustomCode body)"
      and "urlStore g (CustomCode body) = Some data"
  shows "shortenHandler marshal now body g
           = (http_Error ''Custom code already in use'' StatusConflict, g)
       \<and> urlStore (snd (shortenHandler marshal now body g)) (CustomCode body) = Some data"
  using assms by (auto simp: shortenHandler_def isValidCode_def dest: isValidURL_nonempty)

theorem shorten_existing_custom_code_witness:
  "isValidURL ''https://example.com'' \<and> isValidCode ''abc''
   \<and> shortenHandler sample_marshal 1700000000
        \<lparr>URL = ''https://example.com'', CustomCode = ''abc'', ExpirySeconds = 0\<rparr>
        \<lparr>idCounter = 0,
         urlStore = [''abc'' \<mapsto> \<lparr>LongURL = ''http://a.b'', Clicks = 7, CreatedAt = 5, Expiry = 60\<rparr>],
         disk = Map.empty\<rparr>
     = (http_Error ''Custom code already in use'' StatusConflict,
        \<lparr>idCounter = 0,
         urlStore = [''abc'' \<mapsto> \<lparr>LongURL = ''http://a.b'', Clicks = 7, CreatedAt = 5, Expiry = 60\<rparr>],
         disk = Map.empty\<rparr>)"
  using shorten_existing_custom_code [of
          "\<lparr>URL = ''https://example.com'', CustomCode = ''abc'', ExpirySeconds = 0\<rparr>"
          "\<lparr>idCounter = 0,
            urlStore = [''abc'' \<mapsto> \<lparr>LongURL = ''http://a.b'', Clicks = 7, CreatedAt = 5, Expiry = 60\<rparr>],
            disk = Map.empty\<rparr>"
          "\<lparr>LongURL = ''http://a.b'', Clicks = 7, CreatedAt = 5, Expiry = 60\<rparr>"
          sample_marshal 1700000000]
  by (simp add: isValidURL_def isValidCode_def alnum_def)

text \<open>
  C5. When the store holds under \<open>code\<close> a record created at \<open>T\<close> with expiry 10, a
  redirect on \<open>code\<close> at the instant \<open>T + 11\<close> is answered 410 Gone and leaves the whole
  state, the record's clicks among it, as it was.
\<close>

theorem redirect_expired_gone:
  assumes "urlStore g code = Some data" and "Expiry data = 10"
      and "sint now = sint (CreatedAt data) + 11"
  shows "handleRedirects marshal now code g = (http_Error ''URL expired'' StatusGone, g)"
proof -
  have "sint (CreatedAt data + 10) = sint (CreatedAt data) + sint (10 :: int64)"
    using assms(3) sint_range64 [of now] sint_range64 [of "CreatedAt data"]
    by (intro sint_add_no_wrap) simp_all
  then have "CreatedAt data + Expiry data <s now"
    using assms(2,3) by (simp add: word_sless_alt)
  then show ?thesis using assms(1,2) by (simp add: handleRedirects_def)
qed

theorem redirect_expired_gone_witness:
  "sint (1700000011 :: int64) = sint (1700000000 :: int64) + 11
   \<and> handleRedirects sample_marshal 1700000011 ''abc''
        \<lparr>idCounter = 0,
         urlStore = [''abc'' \<mapsto> \<lparr>LongURL = ''http://a.b'', Clicks = 7, CreatedAt = 1700000000, Expiry = 10\<rparr>],
         disk = Map.empty\<rparr>
     = (http_Error ''URL expired'' StatusGone,
        \<lparr>idCounter = 0,
         urlStore = [''abc'' \<mapsto> \<lparr>LongURL = ''http://a.b'', Clicks = 7, CreatedAt = 1700000000, Expiry = 10\<rparr>],
         disk = Map.empty\<rparr>)"
  using redirect_expired_gone [of
          "\<lparr>idCounter = 0,
            urlStore = [''abc'' \<mapsto> \<lparr>LongURL = ''http://a.b'', Clicks = 7, CreatedAt = 1700000000, Expiry = 10\<rparr>],
            disk = Map.empty\<rparr>"
          "''abc''"
          "\<lparr>LongURL = ''http://a.b'', Clicks = 7, CreatedAt = 1700000000, Expiry = 10\<rparr>"
          1700000011 sample_marshal]
  by simp





text \<open>
  The sweep keeps exactly the records on which its own test, with the wrapping sum, is
  false, and changes none.
\<close>

lemma sweep_by_is_expired:
  assumes "set codes = dom (urlStore g)"
  shows "urlStore (cleanUpExpiredLinks marshal now codes g) code
           = (case urlStore g code of
                None \<Rightarrow> None
              | Some data \<Rightarrow> if is_expired now data then None else Some data)"
  using assms
  by (auto simp: cleanUpExpiredLinks_def cleanUp_range_lookup split: option.splits)

text \<open>Where the deadline fits into 64 bits, the test of the code is the spec's.\<close>

lemma is_expired_IsExpired:
  assumes "- 9223372036854775808 \<le> sint (CreatedAt data) + sint (Expiry data)"
      and "sint (CreatedAt data) + sint (Expiry data) \<le> 9223372036854775807"
  shows "is_expired now data \<longleftrightarrow> IsExpired data (sint now)"
  using assms by (simp add: is_expired_def IsExpired_def word_sless_alt sint_add_no_wrap)

text \<open>
  C4, as amended. Whatever the state, the instant and the order in which the loop visits
  the keys of the store: after \<open>cleanUpExpiredLinks\<close> every record of the store was there
  before, unchanged; and of the records whose deadline \<open>createdAt + ttlSeconds\<close> fits into
  64 bits, those for which \<open>IsExpired\<close> holds at the sweep instant are gone and all others
  are still there, unchanged. The counter is untouched.
\<close>

theorem sweep_removes_expired:
  assumes "set codes = dom (urlStore g)"
  shows "(\<forall>code data. urlStore (cleanUpExpiredLinks marshal now codes g) code = Some data
            \<longrightarrow> urlStore g code = Some data)
       \<and> (\<forall>code data. urlStore g code = Some data
              \<and> - 9223372036854775808 \<le> sint (CreatedAt data) + sint (Expiry data)
              \<and> sint (CreatedAt data) + sint (Expiry data) \<le> 9223372036854775807
            \<longrightarrow> urlStore (cleanUpExpiredLinks marshal now codes g) code
                  = (if IsExpired data (sint now) then None else Some data))
       \<and> idCounter (cleanUpExpiredLinks marshal now codes g) = idCounter g"
proof (intro conjI allI impI)
  fix code data
  assume "urlStore (cleanUpExpiredLinks marshal now codes g) code = Some data"
  then show "urlStore g code = Some data"
    by (simp add: sweep_by_is_expired [OF assms] split: option.splits if_splits)
next
  fix code data
  assume "urlStore g code = Some data
          \<and> - 9223372036854775808 \<le> sint (CreatedAt data) + sint (Expiry data)
          \<and> sint (CreatedAt data) + sint (Expiry data) \<le> 9223372036854775807"
  then show "urlStore (cleanUpExpiredLinks marshal now codes g) code
               = (if IsExpired data (sint now) then None else Some data)"
    by (simp add: sweep_by_is_expired [OF assms] is_expired_IsExpired)
next
  show "idCounter (cleanUpExpiredLinks marshal now codes g) = idCounter g"
    by (simp add: cleanUpExpiredLinks_def)
qed

theorem sweep_removes_expired_witness:
  "set [''new'', ''old'']
     = dom (urlStore \<lparr>idCounter = 2,
              urlStore = [''old'' \<mapsto> \<lparr>LongURL = ''http://a.b'', Clicks = 7, CreatedAt = 100, Expiry = 60\<rparr>,
                          ''new'' \<mapsto> \<lparr>LongURL = ''http://c.d'', Clicks = 1, CreatedAt = 150, Expiry = 60\<rparr>],
              disk = Map.empty\<rparr>)
   \<and> IsExpired \<lparr>LongURL = ''http://a.b'', Clicks = 7, CreatedAt = 100, Expiry = 60\<rparr> (sint (200 :: int64))
   \<and> \<not> IsExpired \<lparr>LongURL = ''http://c.d'', Clicks = 1, CreatedAt = 150, Expiry = 60\<rparr> (sint (200 :: int64))
   \<and> urlStore (cleanUpExpiredLinks sample_marshal 200 [''new'', ''old'']
        \<lparr>idCounter = 2,
         urlStore = [''old'' \<mapsto> \<lparr>LongURL = ''http://a.b'', Clicks = 7, CreatedAt = 100, Expiry = 60\<rparr>,
                     ''new'' \<mapsto> \<lparr>LongURL = ''http://c.d'', Clicks = 1, CreatedAt = 150, Expiry = 60\<rparr>],
         disk = Map.empty\<rparr>)
     = [''new'' \<mapsto> \<lparr>LongURL = ''http://c.d'', Clicks = 1, CreatedAt = 150, Expiry = 60\<rparr>]"
  using sweep_removes_expired [of "[''new'', ''old'']"
          "\<lparr>idCounter = 2,
            urlStore = [''old'' \<mapsto> \<lparr>LongURL = ''http://a.b'', Clicks = 7, CreatedAt = 100, Expiry = 60\<rparr>,
                        ''new'' \<mapsto> \<lparr>LongURL = ''http://c.d'', Clicks = 1, CreatedAt = 150, Expiry = 60\<rparr>],
            disk = Map.empty\<rparr>"
          sample_marshal 200]
  by (auto simp: cleanUpExpiredLinks_def is_expired_def IsExpired_def word_sless_alt fun_eq_iff)

text \<open>
  The claim as first stated fails where the sum wraps. A request without a custom code
  and with \<open>expiry_seconds\<close> \<open>2 ^ 63 - 1\<close>, at the instant 1700000000 on the empty store,
  stores a record under \<open>1\<close>. One second later \<open>IsExpired\<close> is false for it, and the sweep
  deletes it.
\<close>

theorem sweep_removes_expired_counterexample:
  "urlStore (snd (shortenHandler sample_marshal 1700000000
       \<lparr>URL = ''https://example.com'', CustomCode = [], ExpirySeconds = 9223372036854775807\<rparr>
       \<lparr>idCounter = 0, urlStore = Map.empty, disk = Map.empty\<rparr>)) ''1''
     = Some \<lparr>LongURL = ''https://example.com'', Clicks = 0, CreatedAt = 1700000000,
             Expiry = 9223372036854775807\<rparr>
   \<and> \<not> IsExpired \<lparr>LongURL = ''https://example.com'', Clicks = 0, CreatedAt = 1700000000,
                     Expiry = 9223372036854775807\<rparr> (sint (1700000001 :: int64))
   \<and> urlStore (cleanUpExpiredLinks sample_marshal 1700000001 [''1'']
        (snd (shortenHandler sample_marshal 1700000000
           \<lparr>URL = ''https://example.com'', CustomCode = [], ExpirySeconds = 9223372036854775807\<rparr>
           \<lparr>idCounter = 0, urlStore = Map.empty, disk = Map.empty\<rparr>))) ''1''
     = None"
  by (simp add: shortenHandler_def shorten_store_def isValidURL_def encodeBase62_def
        encodeBase62_loop.simps base62_def cleanUpExpiredLinks_def is_expired_def IsExpired_def
        word_sless_alt)

text \<open>
  C9, as amended. The expiry test of the sweep, of \<open>infoHandler\<close> and of \<open>listHandle\<close>
  is the strict comparison on 64-bit integers: it is false at the instant
  \<open>createdAt + ttl\<close>, and true at \<open>createdAt + ttl + 1\<close> whenever the deadline
  \<open>createdAt + ttl\<close> is not below the least 64-bit integer (as for every non-negative
  expiry). The test of \<open>handleRedirects\<close> is the same test for a non-zero expiry, and is
  never true for the expiry 0: a redirect on a stored code is answered 410 exactly when the
  expiry is not 0 and the record is expired.
\<close>

theorem is_expired_boundary:
  "(sint now = sint (CreatedAt data) + sint (Expiry data) \<longrightarrow> \<not> is_expired now data)
   \<and> (sint now = sint (CreatedAt data) + sint (Expiry data) + 1
        \<and> - 9223372036854775808 \<le> sint (CreatedAt data) + sint (Expiry data)
        \<longrightarrow> is_expired now data)
   \<and> (urlStore g code = Some data \<longrightarrow>
        (fst (handleRedirects marshal now code g) = http_Error ''URL expired'' StatusGone
         \<longleftrightarrow> Expiry data \<noteq> 0 \<and> is_expired now data))"
proof (intro conjI impI)
  assume "sint now = sint (CreatedAt data) + sint (Expiry data)"
  then show "\<not> is_expired now data" by (rule is_expired_at_deadline)
next
  assume "sint now = sint (CreatedAt data) + sint (Expiry data) + 1
          \<and> - 9223372036854775808 \<le> sint (CreatedAt data) + sint (Expiry data)"
  then show "is_expired now data" by (auto intro: is_expired_after_deadline)
next
  assume "urlStore g code = Some data"
  then show "fst (handleRedirects marshal now code g) = http_Error ''URL expired'' StatusGone
             \<longleftrightarrow> Expiry data \<noteq> 0 \<and> is_expired now data"
    by (simp add: handleRedirects_def is_expired_def Let_def)
qed

theorem is_expired_boundary_witness:
  "sint (160 :: int64) = sint (100 :: int64) + sint (60 :: int64)
   \<and> \<not> is_expired 160 \<lparr>LongURL = ''http://a.b'', Clicks = 7, CreatedAt = 100, Expiry = 60\<rparr>
   \<and> sint (161 :: int64) = sint (100 :: int64) + sint (60 :: int64) + 1
   \<and> is_expired 161 \<lparr>LongURL = ''http://a.b'', Clicks = 7, CreatedAt = 100, Expiry = 60\<rparr>
   \<and> fst (handleRedirects sample_marshal 161 ''abc''
            \<lparr>idCounter = 0,
             urlStore = [''abc'' \<mapsto> \<lparr>LongURL = ''http://a.b'', Clicks = 7, CreatedAt = 100, Expiry = 60\<rparr>],
             disk = Map.empty\<rparr>)
       = http_Error ''URL expired'' StatusGone"
  using is_expired_boundary [of 160
          "\<lparr>LongURL = ''http://a.b'', Clicks = 7, CreatedAt = 100, Expiry = 60\<rparr>"
          "\<lparr>idCounter = 0, urlStore = Map.empty, disk = Map.empty\<rparr>" "''abc''" sample_marshal]
        is_expired_boundary [of 161
          "\<lparr>LongURL = ''http://a.b'', Clicks = 7, CreatedAt = 100, Expiry = 60\<rparr>"
          "\<lparr>idCounter = 0,
            urlStore = [''abc'' \<mapsto> \<lparr>LongURL = ''http://a.b'', Clicks = 7, CreatedAt = 100, Expiry = 60\<rparr>],
            disk = Map.empty\<rparr>"
          "''abc''" sample_marshal]
  by simp

text \<open>
  The claim as first stated fails at two records. With the expiry 0, a redirect one second
  after the creation is served, not refused: the redirect's test is false at
  \<open>createdAt + ttl + 1\<close>. And for the record created at the least 64-bit instant with the
  expiry \<open>- 1\<close> the sum wraps around, so the sweep's test is false at \<open>createdAt + ttl + 1\<close>.
\<close>

theorem is_expired_boundary_counterexample:
  "sint (1 :: int64) = sint (0 :: int64) + sint (0 :: int64) + 1
   \<and> handleRedirects sample_marshal 1 ''abc''
        \<lparr>idCounter = 0,
         urlStore = [''abc'' \<mapsto> \<lparr>LongURL = ''http://a.b'', Clicks = 7, CreatedAt = 0, Expiry = 0\<rparr>],
         disk = Map.empty\<rparr>
     = (http_Redirect ''http://a.b'' StatusFound,
        saveStore sample_marshal
          \<lparr>idCounter = 0,
           urlStore = [''abc'' \<mapsto> \<lparr>LongURL = ''http://a.b'', Clicks = 8, CreatedAt = 0, Expiry = 0\<rparr>],
           disk = Map.empty\<rparr>)
   \<and> sint (- 9223372036854775808 :: int64)
       = sint (- 9223372036854775808 :: int64) + sint (- 1 :: int64) + 1
   \<and> \<not> is_expired (- 9223372036854775808)
         \<lparr>LongURL = ''http://a.b'', Clicks = 7, CreatedAt = - 9223372036854775808, Expiry = - 1\<rparr>"
  by (simp add: handleRedirects_def is_expired_def word_sless_alt)

section \<open>The snapshot\<close>

lemma coerce_utf8_valid: "utf8_ValidString s \<Longrightarrow> coerce_utf8 s = s"
proof (induction s rule: coerce_utf8.induct)
  case 1
  then show ?case by simp
next
  case (2 c cs)
  define n where "n = rune_len (c # cs)"
  have n: "n \<noteq> 0" and rest: "utf8_ValidString (drop n (c # cs))"
    using "2.prems" by (simp_all add: n_def del: rune_len.simps split: if_splits)
  have "coerce_utf8 (drop n (c # cs)) = drop n (c # cs)"
    using n rest "2.IH"(2) by (simp add: n_def del: rune_len.simps)
  then have "coerce_utf8 (c # cs) = take n (c # cs) @ drop n (c # cs)"
    using n by (simp add: n_def del: rune_len.simps)
  then show ?case by (simp only: append_take_drop_id)
qed

text \<open>A string of ASCII bytes is valid; so is every custom code that the handler accepts.\<close>

lemma ascii_utf8_ValidString: "list_all (byte_in 0x00 0x7F) s \<Longrightarrow> utf8_ValidString s"
  by (induction s) simp_all

lemma isValidCode_utf8_ValidString: "isValidCode code \<Longrightarrow> utf8_ValidString code"
proof (rule ascii_utf8_ValidString)
  assume "isValidCode code"
  then have "list_all alnum code" by (simp add: isValidCode_def)
  then show "list_all (byte_in 0x00 0x7F) code"
    by (induction code) (auto simp: alnum_def byte_in_def Let_def)
qed

lemma decode_int64_sint: "decode_int64 (JNumber (sint w)) cur = Some w"
  using sint_range64 [of w] by (simp add: decode_int64_def)

lemma tag_names:
  "foldName ''long_url'' = ''LONG_URL''" "foldName ''clicks'' = ''CLICKS''"
  "foldName ''created_at'' = ''CREATED_AT''" "foldName ''expiry'' = ''EXPIRY''"
  "foldName ''idCounter'' = ''IDCOUNTER''" "foldName ''urlStore'' = ''URLSTORE''"
  by (simp_all add: upper_def)

lemma decode_encode_URLData:
  assumes "utf8_ValidString (LongURL data)"
  shows "decode_URLData (encode_URLData data) cur = Some data"
  using assms
  by (cases data)
     (simp add: decode_URLData_def encode_URLData_def upper_def decode_string_def
        decode_int64_sint coerce_utf8_valid)

text \<open>Decoding the members written for the keys \<open>codes\<close> lays the records of \<open>m\<close> over \<open>m0\<close>.\<close>

lemma decode_map_members_written:
  assumes "\<forall>code data. m code = Some data \<longrightarrow> utf8_ValidString code \<and> utf8_ValidString (LongURL data)"
  shows "decode_map_members
           (List.map_filter
              (\<lambda>code. map_option (\<lambda>data. (coerce_utf8 code, encode_URLData data)) (m code)) codes)
           m0
         = Some (m0 ++ (m |` set codes))"
proof (induction codes arbitrary: m0)
  case Nil
  then show ?case by simp
next
  case (Cons code codes)
  show ?case
  proof (cases "m code")
    case None
    then have "m |` set (code # codes) = m |` set codes"
      by (auto simp: restrict_map_def fun_eq_iff)
    with None Cons.IH [of m0] show ?thesis by simp
  next
    case (Some data)
    with assms have v: "utf8_ValidString code" "utf8_ValidString (LongURL data)" by auto
    define m1 where "m1 = m0(code \<mapsto> data)"
    have "m1 ++ (m |` set codes) = m0 ++ (m |` set (code # codes))"
      using Some
      by (auto simp: m1_def map_add_def restrict_map_def fun_eq_iff split: option.splits)
    with Cons.IH [of m1] have "decode_map_members
           (List.map_filter
              (\<lambda>code. map_option (\<lambda>data. (coerce_utf8 code, encode_URLData data)) (m code)) codes)
           m1
         = Some (m0 ++ (m |` set (code # codes)))"
      by simp
    with Some v show ?thesis
      by (simp add: decode_encode_URLData coerce_utf8_valid m1_def)
  qed
qed

lemma json_Unmarshal_MarshalIndent:
  assumes "set codes = dom (URLStore store)"
      and "\<forall>code data. URLStore store code = Some data
             \<longrightarrow> utf8_ValidString code \<and> utf8_ValidString (LongURL data)"
  shows "json_Unmarshal (json_MarshalIndent codes store) = Some store"
proof -
  have "Map.empty ++ (URLStore store |` set codes) = URLStore store"
    using assms(1) by (auto simp: restrict_map_def fun_eq_iff)
  then show ?thesis
    using decode_map_members_written [OF assms(2), of codes Map.empty]
    by (cases store)
       (simp add: json_Unmarshal_def json_MarshalIndent_def upper_def decode_int64_sint
          decode_map_def)
qed

text \<open>
  C7, as amended. Take a store whose codes and long URLs are valid UTF-8. A process that
  starts in any state on the files left by
  \<open>saveStore\<close> has, after \<open>loadStore\<close>, exactly that store's counter and map in memory,
  whatever the order in which the encoder writes the keys. At the store with counter 3 and
  one record under \<open>3\<close> this is the reload scenario.
\<close>

theorem save_load_roundtrip:
  assumes "set codes = dom (urlStore g)"
      and "\<forall>code data. urlStore g code = Some data
             \<longrightarrow> utf8_ValidString code \<and> utf8_ValidString (LongURL data)"
  shows "loadStore json_Unmarshal (g0\<lparr>disk := disk (saveStore (json_MarshalIndent codes) g)\<rparr>)
           = Some (g0\<lparr>idCounter := idCounter g, urlStore := urlStore g,
                      disk := disk (saveStore (json_MarshalIndent codes) g)\<rparr>)"
proof -
  have "json_Unmarshal (json_MarshalIndent codes \<lparr>IDCounter = idCounter g, URLStore = urlStore g\<rparr>)
          = Some \<lparr>IDCounter = idCounter g, URLStore = urlStore g\<rparr>"
    using assms by (intro json_Unmarshal_MarshalIndent) simp_all
  then show ?thesis by (simp add: loadStore_def)
qed

theorem save_load_roundtrip_witness:
  "set [''3'']
     = dom (urlStore \<lparr>idCounter = 3,
              urlStore = [''3'' \<mapsto> \<lparr>LongURL = ''https://example.com'', Clicks = 0,
                                     CreatedAt = 1700000000, Expiry = 604800\<rparr>],
              disk = Map.empty\<rparr>)
   \<and> utf8_ValidString ''3'' \<and> utf8_ValidString ''https://example.com''
   \<and> loadStore json_Unmarshal
        \<lparr>idCounter = 0, urlStore = Map.empty,
         disk = disk (saveStore (json_MarshalIndent [''3''])
           \<lparr>idCounter = 3,
            urlStore = [''3'' \<mapsto> \<lparr>LongURL = ''https://example.com'', Clicks = 0,
                                   CreatedAt = 1700000000, Expiry = 604800\<rparr>],
            disk = Map.empty\<rparr>)\<rparr>
     = Some \<lparr>idCounter = 3,
             urlStore = [''3'' \<mapsto> \<lparr>LongURL = ''https://example.com'', Clicks = 0,
                                    CreatedAt = 1700000000, Expiry = 604800\<rparr>],
             disk = disk (saveStore (json_MarshalIndent [''3''])
               \<lparr>idCounter = 3,
                urlStore = [''3'' \<mapsto> \<lparr>LongURL = ''https://example.com'', Clicks = 0,
                                       CreatedAt = 1700000000, Expiry = 604800\<rparr>],
                disk = Map.empty\<rparr>)\<rparr>"
  using save_load_roundtrip [of "[''3'']"
          "\<lparr>idCounter = 3,
            urlStore = [''3'' \<mapsto> \<lparr>LongURL = ''https://example.com'', Clicks = 0,
                                   CreatedAt = 1700000000, Expiry = 604800\<rparr>],
            disk = Map.empty\<rparr>"
          "\<lparr>idCounter = 0, urlStore = Map.empty, disk = Map.empty\<rparr>"]
  by (simp add: byte_in_def)

text \<open>
  The claim as first stated fails for a string that is not valid UTF-8: when the long
  URL of the record under \<open>3\<close> is the one byte \<open>FF\<close>, the reloaded record has the three
  bytes of U+FFFD in its place.
\<close>

theorem save_load_roundtrip_counterexample:
  "loadStore json_Unmarshal
     \<lparr>idCounter = 0, urlStore = Map.empty,
      disk = disk (saveStore (json_MarshalIndent [''3''])
        \<lparr>idCounter = 3,
         urlStore = [''3'' \<mapsto> \<lparr>LongURL = [CHR 0xFF], Clicks = 0,
                                CreatedAt = 1700000000, Expiry = 604800\<rparr>],
         disk = Map.empty\<rparr>)\<rparr>
   = Some \<lparr>idCounter = 3,
           urlStore = [''3'' \<mapsto> \<lparr>LongURL = [CHR 0xEF, CHR 0xBF, CHR 0xBD], Clicks = 0,
                                  CreatedAt = 1700000000, Expiry = 604800\<rparr>],
           disk = disk (saveStore (json_MarshalIndent [''3''])
             \<lparr>idCounter = 3,
              urlStore = [''3'' \<mapsto> \<lparr>LongURL = [CHR 0xFF], Clicks = 0,
                                     CreatedAt = 1700000000, Expiry = 604800\<rparr>],
              disk = Map.empty\<rparr>)\<rparr>
   \<and> [CHR 0xEF, CHR 0xBF, CHR 0xBD] \<noteq> [CHR 0xFF]"
  by (simp add: loadStore_def json_Unmarshal_def json_MarshalIndent_def encode_URLData_def
        decode_map_def decode_URLData_def decode_string_def decode_int64_def upper_def
        byte_in_def)

section \<open>Lock discipline\<close>

lemma unlocked_cleanUp_range [simp]:
  "unlocked_mutations True (cleanUp_range_accesses now codes m @ rest)
     = unlocked_mutations True rest"
  by (induction codes arbitrary: m) (auto simp: mutates_def split: option.splits)

lemma shortenHandler_locked: "unlocked_mutations False (shortenHandler_accesses body g) = []"
  by (simp add: shortenHandler_accesses_def mutates_def)

lemma deleteHandle_locked: "unlocked_mutations False (deleteHandle_accesses code g) = []"
  by (simp add: deleteHandle_accesses_def mutates_def)

lemma cleanUpExpiredLinks_locked:
  "unlocked_mutations False (cleanUpExpiredLinks_accesses now codes g) = []"
  by (simp add: cleanUpExpiredLinks_accesses_def mutates_def)

text \<open>
  The access lists account for the handlers: a handler that changes the map or the counter
  has a mutating access in its list.
\<close>

lemma cleanUp_range_accesses_cover:
  "cleanUp_range now codes m \<noteq> m \<Longrightarrow> delete_urlStore \<in> set (cleanUp_range_accesses now codes m)"
  by (induction codes arbitrary: m) (auto split: option.splits if_splits)

lemma cleanUpExpiredLinks_accesses_cover:
  "urlStore (cleanUpExpiredLinks marshal now codes g) \<noteq> urlStore g \<Longrightarrow>
   \<exists>a \<in> set (cleanUpExpiredLinks_accesses now codes g). mutates a"
  by (auto simp: cleanUpExpiredLinks_def cleanUpExpiredLinks_accesses_def mutates_def
           dest: cleanUp_range_accesses_cover)

lemma shortenHandler_accesses_cover:
  "urlStore (snd (shortenHandler marshal now body g)) \<noteq> urlStore g
     \<or> idCounter (snd (shortenHandler marshal now body g)) \<noteq> idCounter g \<Longrightarrow>
   \<exists>a \<in> set (shortenHandler_accesses body g). mutates a"
  by (auto simp: shortenHandler_def shorten_store_def shortenHandler_accesses_def mutates_def
                 Let_def split: if_splits)

lemma deleteHandle_accesses_cover:
  "urlStore (snd (deleteHandle marshal code g)) \<noteq> urlStore g \<Longrightarrow>
   \<exists>a \<in> set (deleteHandle_accesses code g). mutates a"
  by (auto simp: deleteHandle_def deleteHandle_accesses_def mutates_def split: if_splits)

lemma handleRedirects_accesses_cover:
  "urlStore (snd (handleRedirects marshal now code g)) \<noteq> urlStore g \<Longrightarrow>
   \<exists>a \<in> set (handleRedirects_accesses now code g). mutates a"
  by (auto simp: handleRedirects_def handleRedirects_accesses_def mutates_def Let_def
           split: if_splits option.splits)

text \<open>
  C2. Shorten, delete and the sweep mutate the map and the counter with the mutex held
  (the three lemmas above). \<open>handleRedirects\<close> never takes the mutex: serving a redirect
  on a stored, unexpired code writes the clicked record into the map outside the lock.
\<close>

theorem handleRedirects_not_locked:
  "unlocked_mutations False
     (handleRedirects_accesses 1700000011 ''abc''
        \<lparr>idCounter = 0,
         urlStore = [''abc'' \<mapsto> \<lparr>LongURL = ''http://a.b'', Clicks = 7, CreatedAt = 1700000000, Expiry = 60\<rparr>],
         disk = Map.empty\<rparr>)
   = [write_urlStore]"
  by (simp add: handleRedirects_accesses_def mutates_def word_sless_alt)

section \<open>Code allocation\<close>

lemma indexOf_nth: "distinct xs \<Longrightarrow> k < length xs \<Longrightarrow> indexOf (xs ! k) xs = k"
proof (induction xs arbitrary: k)
  case Nil
  then show ?case by simp
next
  case (Cons x xs)
  then show ?case by (cases k) auto
qed

lemma length_base62: "length base62 = 62"
  by (simp add: base62_def)

lemma distinct_base62: "distinct base62"
  by (simp add: base62_def)

lemma digit_value: "0 \<le> d \<Longrightarrow> d < 62 \<Longrightarrow> int (indexOf (base62 ! nat d) base62) = d"
  using indexOf_nth [OF distinct_base62, of "nat d"] by (simp add: length_base62)

lemma encodeBase62_loop_unfold:
  "0 < n \<Longrightarrow>
   encodeBase62_loop n result = encodeBase62_loop (n div 62) (base62 ! nat (n mod 62) # result)"
  by (subst encodeBase62_loop.simps) simp

lemma encodeBase62_loop_stop: "\<not> 0 < n \<Longrightarrow> encodeBase62_loop n result = result"
  by (subst encodeBase62_loop.simps) simp

lemma div62_less: "0 < (n::int) \<Longrightarrow> nat (n div 62) < nat n"
  using int_div_less_self [of n 62] by (simp add: nat_less_iff)

text \<open>The loop prepends to what it was given: the accumulator can be split off.\<close>

lemma encodeBase62_loop_acc:
  "encodeBase62_loop n result = encodeBase62_loop n [] @ result"
proof (induction "nat n" arbitrary: n result rule: less_induct)
  case less
  show ?case
  proof (cases "0 < n")
    case True
    note IH = less.hyps [OF div62_less [OF True]]
    have "encodeBase62_loop n result
            = encodeBase62_loop (n div 62) [] @ (base62 ! nat (n mod 62) # result)"
      using True IH [of "base62 ! nat (n mod 62) # result"]
      by (simp add: encodeBase62_loop_unfold)
    moreover have "encodeBase62_loop n []
            = encodeBase62_loop (n div 62) [] @ [base62 ! nat (n mod 62)]"
      using True IH [of "[base62 ! nat (n mod 62)]"]
      by (simp add: encodeBase62_loop_unfold)
    ultimately show ?thesis by simp
  next
    case False
    then show ?thesis by (simp add: encodeBase62_loop_stop)
  qed
qed

lemma decodeBase62_snoc:
  "decodeBase62 (code @ [c]) = decodeBase62 code * 62 + int (indexOf c base62)"
  by (simp add: decodeBase62_def)

lemma decode_encode_loop: "0 \<le> n \<Longrightarrow> decodeBase62 (encodeBase62_loop n []) = n"
proof (induction "nat n" arbitrary: n rule: less_induct)
  case less
  show ?case
  proof (cases "0 < n")
    case True
    have "encodeBase62_loop n [] = encodeBase62_loop (n div 62) [] @ [base62 ! nat (n mod 62)]"
      using True encodeBase62_loop_acc [of "n div 62" "[base62 ! nat (n mod 62)]"]
      by (simp add: encodeBase62_loop_unfold)
    then have "decodeBase62 (encodeBase62_loop n [])
        = decodeBase62 (encodeBase62_loop (n div 62) []) * 62
          + int (indexOf (base62 ! nat (n mod 62)) base62)"
      by (simp add: decodeBase62_snoc)
    also have "decodeBase62 (encodeBase62_loop (n div 62) []) = n div 62"
      using True by (intro less.hyps div62_less) (simp_all add: pos_imp_zdiv_nonneg_iff)
    also have "int (indexOf (base62 ! nat (n mod 62)) base62) = n mod 62"
      by (rule digit_value) simp_all
    finally show ?thesis by simp
  next
    case False
    with less.prems have "n = 0" by simp
    then show ?thesis by (simp add: encodeBase62_loop_stop decodeBase62_def)
  qed
qed

text \<open>Decoding undoes the encoding of every non-negative counter value.\<close>

lemma decode_encodeBase62: "0 \<le> sint n \<Longrightarrow> decodeBase62 (encodeBase62 n) = sint n"
proof (cases "n = 0")
  case True
  then show ?thesis
    using digit_value [of 0] by (simp add: encodeBase62_def decodeBase62_def base62_def)
next
  case False
  assume "0 \<le> sint n"
  with False show ?thesis by (simp add: encodeBase62_def decode_encode_loop)
qed

lemma NextCodes_decode:
  "- 1 \<le> sint (idCounter g) \<Longrightarrow> sint (idCounter g) + int k < 9223372036854775808 \<Longrightarrow>
   map decodeBase62 (NextCodes k g) = map (\<lambda>i. sint (idCounter g) + 1 + int i) [0..<k]"
proof (induction k arbitrary: g)
  case 0
  then show ?case by simp
next
  case (Suc k)
  define g' where "g' = snd (NextCode g)"
  have c': "idCounter g' = idCounter g + 1" by (simp add: g'_def NextCode_def Let_def)
  have s: "sint (idCounter g') = sint (idCounter g) + 1"
    using Suc.prems sint_range64 [of "idCounter g"] sint_add_no_wrap [of "idCounter g" 1]
    by (simp add: c')
  have "map decodeBase62 (NextCodes k g') = map (\<lambda>i. sint (idCounter g') + 1 + int i) [0..<k]"
    using Suc.prems by (intro Suc.IH) (simp_all add: s)
  moreover have "NextCodes (Suc k) g = encodeBase62 (idCounter g') # NextCodes k g'"
    by (simp add: g'_def NextCode_def Let_def)
  moreover have "decodeBase62 (encodeBase62 (idCounter g')) = sint (idCounter g) + 1"
    using Suc.prems by (simp add: decode_encodeBase62 s)
  moreover have "map (\<lambda>i. sint (idCounter g) + 1 + int i) [0..<Suc k]
      = (sint (idCounter g) + 1) # map (\<lambda>i. sint (idCounter g) + 1 + 1 + int i) [0..<k]"
    by (simp add: upt_conv_Cons map_Suc_upt [symmetric] o_def add.assoc del: upt_Suc)
  ultimately show ?case
    by (simp add: s add.commute add.left_commute del: upt_Suc NextCodes.simps)
qed

text \<open>A shorten request without a custom code stores under the next allocated code.\<close>

lemma shortenHandler_allocates:
  "isValidURL (URL body) \<Longrightarrow> CustomCode body = [] \<Longrightarrow>
   shortenHandler marshal now body g
     = shorten_store marshal now body (fst (NextCode g)) (snd (NextCode g))"
  by (auto simp: shortenHandler_def NextCode_def Let_def dest: isValidURL_nonempty)

text \<open>
  C6, as amended. Take \<open>k\<close> successive allocations from a counter value \<open>c\<close> with
  \<open>- 1 \<le> c\<close> and \<open>c + k \<le> 2 ^ 63 - 1\<close>, so that every allocated value is non-negative
  and no increment overflows. The codes are pairwise distinct, and the integers they
  encode are \<open>c + 1, \<dots>, c + k\<close>, strictly increasing.
\<close>

theorem NextCodes_distinct_increasing:
  assumes "- 1 \<le> sint (idCounter g)" and "sint (idCounter g) + int k < 9223372036854775808"
  shows "distinct (NextCodes k g)
       \<and> sorted_wrt (<) (map decodeBase62 (NextCodes k g))
       \<and> map decodeBase62 (NextCodes k g) = map (\<lambda>i. sint (idCounter g) + 1 + int i) [0..<k]"
proof -
  have m: "map decodeBase62 (NextCodes k g) = map (\<lambda>i. sint (idCounter g) + 1 + int i) [0..<k]"
    using assms by (rule NextCodes_decode)
  have inc: "sorted_wrt (<) (map (\<lambda>i. sint (idCounter g) + 1 + int i) [0..<k])"
    by (simp add: sorted_wrt_map del: upt_Suc)
  then have "distinct (map (\<lambda>i. sint (idCounter g) + 1 + int i) [0..<k])"
    by (simp add: strict_sorted_iff del: upt_Suc)
  then have "distinct (NextCodes k g)"
    unfolding m [symmetric] by (simp add: distinct_map)
  with m inc show ?thesis by simp
qed

theorem NextCodes_distinct_increasing_witness:
  "- 1 \<le> sint (idCounter \<lparr>idCounter = 61, urlStore = Map.empty, disk = Map.empty\<rparr>)
   \<and> sint (idCounter \<lparr>idCounter = 61, urlStore = Map.empty, disk = Map.empty\<rparr>) + int (Suc (Suc (Suc 0)))
        < 9223372036854775808
   \<and> NextCodes (Suc (Suc (Suc 0))) \<lparr>idCounter = 61, urlStore = Map.empty, disk = Map.empty\<rparr> = [''10'', ''11'', ''12'']
   \<and> distinct (NextCodes (Suc (Suc (Suc 0))) \<lparr>idCounter = 61, urlStore = Map.empty, disk = Map.empty\<rparr>)
   \<and> map decodeBase62 (NextCodes (Suc (Suc (Suc 0))) \<lparr>idCounter = 61, urlStore = Map.empty, disk = Map.empty\<rparr>)
       = [62, 63, 64]"
  using NextCodes_distinct_increasing [of
          "\<lparr>idCounter = 61, urlStore = Map.empty, disk = Map.empty\<rparr>" "Suc (Suc (Suc 0))"]
  by (simp add: NextCode_def encodeBase62_def encodeBase62_loop.simps base62_def)

text \<open>
  The claim as first stated fails for a negative counter and at the overflow: two
  allocations from the counter \<open>- 3\<close>, and two from the greatest 64-bit value, both
  return the empty code twice.
\<close>

theorem NextCodes_distinct_increasing_counterexample:
  "NextCodes (Suc (Suc 0)) \<lparr>idCounter = - 3, urlStore = Map.empty, disk = Map.empty\<rparr> = [[], []]
   \<and> \<not> distinct (NextCodes (Suc (Suc 0)) \<lparr>idCounter = - 3, urlStore = Map.empty, disk = Map.empty\<rparr>)
   \<and> NextCodes (Suc (Suc 0)) \<lparr>idCounter = 9223372036854775807, urlStore = Map.empty, disk = Map.empty\<rparr>
       = [[], []]
   \<and> \<not> distinct (NextCodes (Suc (Suc 0))
         \<lparr>idCounter = 9223372036854775807, urlStore = Map.empty, disk = Map.empty\<rparr>)"
  by (simp add: NextCode_def encodeBase62_def encodeBase62_loop.simps)


section \<open>The rate limiter\<close>

text \<open>The saturation of \<open>Sub\<close> never shows in the comparison with the window.\<close>

lemma window_over_iff:
  "window_over now entry \<longleftrightarrow>
     entry = None \<or> (\<exists>limiter. entry = Some limiter \<and> now - lastRequest limiter > 60 * Second)"
  by (cases entry)
     (auto simp: window_over_def time_Sub_def rateLimitWindow_def Minute_def Second_def)

lemma middleware_reset:
  "window_over now (rls ip) \<Longrightarrow>
   rateLimitMiddleware now ip rls = (Next, rls(ip \<mapsto> \<lparr>lastRequest = now, requests = 1\<rparr>))"
  by (cases "rls ip") (simp_all add: rateLimitMiddleware_def window_over_def)

lemma middleware_count:
  "rls ip = Some l \<Longrightarrow> \<not> window_over now (rls ip) \<Longrightarrow> requests l < 5 \<Longrightarrow>
   rateLimitMiddleware now ip rls
     = (Next, rls(ip \<mapsto> \<lparr>lastRequest = now, requests = requests l + 1\<rparr>))"
  by (cases l) (simp add: rateLimitMiddleware_def window_over_def maxRequests_def)

lemma middleware_reject:
  "rls ip = Some l \<Longrightarrow> \<not> window_over now (rls ip) \<Longrightarrow> 5 \<le> requests l \<Longrightarrow>
   rateLimitMiddleware now ip rls
     = (AbortWithStatusJSON 429 ''Rate limit exceeded. Try again later.'', rls)"
  by (simp add: rateLimitMiddleware_def window_over_def maxRequests_def)

lemma fst_attempts_Cons:
  "fst (attempts ip (now # later) rls)
     = fst (rateLimitMiddleware now ip rls)
       # fst (attempts ip later (snd (rateLimitMiddleware now ip rls)))"
  by (simp split: prod.splits)

text \<open>
  Inside one window a client whose count is \<open>requests l\<close> is handed on until the count
  reaches 5 and aborted from then on.
\<close>

lemma attempts_one_window:
  "rls ip = Some l \<Longrightarrow> one_window ip ts rls \<Longrightarrow>
   fst (attempts ip ts rls)
     = replicate (min (length ts) (nat (5 - requests l))) Next
       @ replicate (length ts - nat (5 - requests l))
           (AbortWithStatusJSON 429 ''Rate limit exceeded. Try again later.'')"
proof (induction ts arbitrary: rls l)
  case Nil
  then show ?case by simp
next
  case (Cons now later)
  have nw: "\<not> window_over now (rls ip)"
    and ow: "one_window ip later (snd (rateLimitMiddleware now ip rls))"
    using Cons.prems(2) by simp_all
  show ?case
  proof (cases "requests l < 5")
    case True
    define l' where "l' = \<lparr>lastRequest = now, requests = requests l + 1\<rparr>"
    define rls' where "rls' = rls(ip \<mapsto> l')"
    have step: "rateLimitMiddleware now ip rls = (Next, rls')"
      unfolding rls'_def l'_def using Cons.prems(1) nw True by (rule middleware_count)
    have "rls' ip = Some l'" by (simp add: rls'_def)
    moreover have "one_window ip later rls'" using ow by (simp add: step)
    ultimately have "fst (attempts ip later rls')
            = replicate (min (length later) (nat (5 - requests l'))) Next
              @ replicate (length later - nat (5 - requests l'))
                  (AbortWithStatusJSON 429 ''Rate limit exceeded. Try again later.'')"
      by (rule Cons.IH)
    moreover have "nat (5 - requests l) = Suc (nat (5 - requests l'))"
      using True by (simp add: l'_def)
    ultimately show ?thesis
      by (simp add: fst_attempts_Cons step del: attempts.simps)
  next
    case False
    have step: "rateLimitMiddleware now ip rls
                  = (AbortWithStatusJSON 429 ''Rate limit exceeded. Try again later.'', rls)"
    proof -
      from False have "5 \<le> requests l" by simp
      with Cons.prems(1) nw show ?thesis by (rule middleware_reject)
    qed
    have "one_window ip later rls" using ow by (simp add: step)
    with Cons.prems(1) have "fst (attempts ip later rls)
            = replicate (min (length later) (nat (5 - requests l))) Next
              @ replicate (length later - nat (5 - requests l))
                  (AbortWithStatusJSON 429 ''Rate limit exceeded. Try again later.'')"
      by (rule Cons.IH)
    moreover have "nat (5 - requests l) = 0" using False by simp
    ultimately show ?thesis
      by (simp add: fst_attempts_Cons step del: attempts.simps)
  qed
qed

text \<open>
  C1, as amended. A request at the instant \<open>now\<close> of a client that has no entry, or whose
  entry has \<open>now - lastRequest > 60 s\<close>, sets the entry to \<open>(now, 1)\<close> and is handed on;
  \<open>lastRequest\<close> is the instant of the client's latest request that was handed on, not the
  start of the window. Of the requests that follow without finding the window over, the
  first four are handed on and all later ones are aborted with 429: a window admits exactly
  five requests and rejects the sixth.
\<close>

theorem limiter_window:
  assumes "rls ip = None \<or> (\<exists>limiter. rls ip = Some limiter \<and> now - lastRequest limiter > 60 * Second)"
  shows "rateLimitMiddleware now ip rls = (Next, rls(ip \<mapsto> \<lparr>lastRequest = now, requests = 1\<rparr>))
       \<and> (one_window ip later (snd (rateLimitMiddleware now ip rls)) \<longrightarrow>
            fst (attempts ip (now # later) rls)
              = replicate (min (Suc (length later)) 5) Next
                @ replicate (Suc (length later) - 5)
                    (AbortWithStatusJSON 429 ''Rate limit exceeded. Try again later.''))"
proof (intro conjI impI)
  define l' where "l' = \<lparr>lastRequest = now, requests = 1\<rparr>"
  define rls' where "rls' = rls(ip \<mapsto> l')"
  have over: "window_over now (rls ip)" using assms by (simp add: window_over_iff)
  have r: "rateLimitMiddleware now ip rls = (Next, rls')"
    unfolding rls'_def l'_def using over by (rule middleware_reset)
  then show "rateLimitMiddleware now ip rls
               = (Next, rls(ip \<mapsto> \<lparr>lastRequest = now, requests = 1\<rparr>))"
    by (simp add: rls'_def l'_def)
  assume "one_window ip later (snd (rateLimitMiddleware now ip rls))"
  then have "one_window ip later rls'" by (simp add: r)
  moreover have "rls' ip = Some l'" by (simp add: rls'_def)
  ultimately have "fst (attempts ip later rls')
      = replicate (min (length later) (nat (5 - requests l'))) Next
        @ replicate (length later - nat (5 - requests l'))
            (AbortWithStatusJSON 429 ''Rate limit exceeded. Try again later.'')"
    by (intro attempts_one_window)
  moreover have "min (Suc (length later)) 5 = Suc (min (length later) 4)"
    and "Suc (length later) - 5 = length later - 4" and "nat (5 - requests l') = 4"
    by (simp_all add: l'_def)
  ultimately show "fst (attempts ip (now # later) rls)
           = replicate (min (Suc (length later)) 5) Next
             @ replicate (Suc (length later) - 5)
                 (AbortWithStatusJSON 429 ''Rate limit exceeded. Try again later.'')"
    by (simp add: fst_attempts_Cons r del: attempts.simps)
qed

theorem limiter_window_witness:
  "one_window ''203.0.113.7''
     [10000000000, 20000000000, 30000000000, 40000000000, 50000000000]
     (snd (rateLimitMiddleware 0 ''203.0.113.7'' Map.empty))
   \<and> fst (attempts ''203.0.113.7''
            [0, 10000000000, 20000000000, 30000000000, 40000000000, 50000000000] Map.empty)
       = [Next, Next, Next, Next, Next,
          AbortWithStatusJSON 429 ''Rate limit exceeded. Try again later.'']"
  using limiter_window [of Map.empty "''203.0.113.7''" 0
          "[10000000000, 20000000000, 30000000000, 40000000000, 50000000000]"]
  by (simp add: rateLimitMiddleware_def window_over_def time_Sub_def rateLimitWindow_def
        Minute_def Second_def maxRequests_def)

text \<open>
  The claim as first stated fails: six requests of one client, 50 seconds apart, fall
  into a window that started at the first of them. The sixth comes 250 seconds after the
  start of the window, and it is aborted with 429: the entry is not set back to \<open>(now, 1)\<close>.
\<close>

theorem limiter_window_counterexample:
  "windowStart ''203.0.113.7''
     [0, 50000000000, 100000000000, 150000000000, 200000000000] Map.empty = Some 0
   \<and> 250000000000 - 0 > 60 * Second
   \<and> rateLimitMiddleware 250000000000 ''203.0.113.7''
        (snd (attempts ''203.0.113.7''
                [0, 50000000000, 100000000000, 150000000000, 200000000000] Map.empty))
     = (AbortWithStatusJSON 429 ''Rate limit exceeded. Try again later.'',
        [''203.0.113.7'' \<mapsto> \<lparr>lastRequest = 200000000000, requests = 5\<rparr>])"
  by (simp add: rateLimitMiddleware_def window_over_def time_Sub_def rateLimitWindow_def
        Minute_def Second_def maxRequests_def)


end
